theory Spec2Isabelle
  imports Main
begin

section \<open>JavaScript values, property lookup and element trees\<close>

text \<open>
  The two components of the site, \<open>Info\<close> (src/pages/info.js) and \<open>Comment\<close>
  (src/unnamed/part_000), are functions that build a tree of elements from JSX. The
  values they put into props are string literals, the numbers of \<open>mb={2}\<close>,
  \<open>spacing={8}\<close> and \<open>px={2}\<close>, and the result of the property lookup
  \<open>colorSecondary[colorMode]\<close>, which may be \<open>undefined\<close> or a built-in object
  inherited from \<open>Object.prototype\<close>.

  Strings are the bytes of the source file: the emoji of info.js, line 41, is the four
  bytes of its UTF-8 encoding.
\<close>

datatype jsval =
    Undefined
  | Num int
  | Str string
  | Builtin string

fun is_string :: "jsval \<Rightarrow> bool" where
  "is_string (Str s) = True"
| "is_string Undefined = False"
| "is_string (Num n) = False"
| "is_string (Builtin b) = False"

text \<open>An object literal: its own properties, in the order of the source.\<close>

type_synonym props = "(string \<times> jsval) list"

text \<open>
  An object literal \<open>{ ... }\<close> has the prototype \<open>Object.prototype\<close>. These are
  the properties every object inherits from it (ECMAScript, "Properties of the Object
  Prototype Object", with the legacy accessors that browsers and Node provide), each
  standing for the built-in it holds.
\<close>

definition object_prototype :: props where
  "object_prototype =
     [(''constructor'', Builtin ''Object''),
      (''__proto__'', Builtin ''Object.prototype''),
      (''hasOwnProperty'', Builtin ''Object.prototype.hasOwnProperty''),
      (''isPrototypeOf'', Builtin ''Object.prototype.isPrototypeOf''),
      (''propertyIsEnumerable'', Builtin ''Object.prototype.propertyIsEnumerable''),
      (''toLocaleString'', Builtin ''Object.prototype.toLocaleString''),
      (''toString'', Builtin ''Object.prototype.toString''),
      (''valueOf'', Builtin ''Object.prototype.valueOf''),
      (''__defineGetter__'', Builtin ''Object.prototype.__defineGetter__''),
      (''__defineSetter__'', Builtin ''Object.prototype.__defineSetter__''),
      (''__lookupGetter__'', Builtin ''Object.prototype.__lookupGetter__''),
      (''__lookupSetter__'', Builtin ''Object.prototype.__lookupSetter__'')]"

text \<open>
  \<open>obj[key]\<close> on an object literal: the own property when there is one, else the
  inherited one, else \<open>undefined\<close>. The lookup of a missing key does not throw.
\<close>

definition js_get :: "props \<Rightarrow> string \<Rightarrow> jsval" where
  "js_get obj key =
     (case map_of obj key of
        Some v \<Rightarrow> v
      | None \<Rightarrow>
          (case map_of object_prototype key of
             Some v \<Rightarrow> v
           | None \<Rightarrow> Undefined))"

text \<open>
  A JSX tag is a host element when it is written in lower case (\<open>title\<close>, \<open>br\<close>) and
  a reference to a component otherwise (\<open>Container\<close>, \<open>Giscus\<close>, ...). The components
  referred to are imported from libraries or from ../components; the tree only names
  them.
\<close>

datatype tag = Host string | Component string

datatype element =
    Text_node string
  | Element tag props "element list"

datatype js_error = TypeError string

text \<open>
  The ambient UI state a component is rendered under. \<open>useColorMode\<close> is the hook of
  the UI library; \<open>const { colorMode } = useColorMode()\<close> reads the field
  \<open>colorMode\<close> of what it returns, a string.
\<close>

record ambient =
  colorMode :: string

definition useColorMode :: "ambient \<Rightarrow> ambient" where
  "useColorMode amb = amb"

section \<open>The components\<close>

text \<open>src/pages/info.js, lines 15 to 18.\<close>

definition colorSecondary :: props where
  "colorSecondary = [(''light'', Str ''gray.700''), (''dark'', Str ''gray.400'')]"

text \<open>
  src/pages/info.js, lines 13 to 49. JSX text is trimmed line by line, so the three
  pieces of text inside \<open>Text\<close> are the children between the \<open>br\<close> elements; the
  last one keeps the blank before \<open></Text>\<close>.
\<close>

definition Info :: "ambient \<Rightarrow> js_error + element" where
  "Info amb =
     (let cm = colorMode (useColorMode amb) in
      Inr (Element (Component ''Container'') []
        [Element (Component ''Head'') []
           [Element (Host ''title'') [] [Text_node ''Info - Luca Cespedes'']],
         Element (Component ''Stack'')
           [(''as'', Str ''main''),
            (''spacing'', Num 8),
            (''justifyContent'', Str ''center''),
            (''alignItems'', Str ''flex-start''),
            (''m'', Str ''0 auto 4rem auto''),
            (''maxWidth'', Str ''700px''),
            (''px'', Num 2)]
           [Element (Component ''Flex'')
              [(''flexDirection'', Str ''column''),
               (''justifyContent'', Str ''flex-start''),
               (''alignItems'', Str ''flex-start''),
               (''maxWidth'', Str ''700px'')]
              [Element (Component ''Heading'') [(''mb'', Num 2)]
                 [Text_node (''Hi, I'' @ [CHR 0x27] @ ''m Luca Cespedes'')],
               Element (Component ''Text'') [(''color'', js_get colorSecondary cm)]
                 [Text_node ''I am a Smart Contract developer and blockchain enthusiast.'',
                  Element (Host ''br'') [] [],
                  Text_node (''In this blog I will be uploading posts about all this, not only to share it with you, but to help me to have a place to come to when I forget some things ''
                             @ [CHR 0xF0, CHR 0x9F, CHR 0x98, CHR 0x81] @ ''.''),
                  Element (Host ''br'') [] [],
                  Text_node ''All comments on the posts are welcome, and in fact if you find any mistakes, I would appreciate if you mention them to correct them. '']]]]))"

text \<open>
  src/unnamed/part_000, lines 3 to 16. \<open>Comment\<close> declares no parameter and calls no
  hook: the ambient state it is rendered under is not read.
\<close>

definition Comment :: "ambient \<Rightarrow> js_error + element" where
  "Comment amb =
     Inr (Element (Component ''Giscus'')
       [(''repo'', Str ''melvnl/melvinliu.com''),
        (''repoId'', Str ''R_kgDOHk-dUg''),
        (''category'', Str ''General''),
        (''categoryId'', Str ''DIC_kwDOHk-dUs4CP-Ao''),
        (''mapping'', Str ''pathname''),
        (''reactionsEnabled'', Str ''0''),
        (''emitMetadata'', Str ''0''),
        (''theme'', Str ''dark'')]
       [])"

section \<open>Observations on a rendered tree\<close>

fun tag_of :: "element \<Rightarrow> tag option" where
  "tag_of (Text_node s) = None"
| "tag_of (Element t ps cs) = Some t"

fun props_of :: "element \<Rightarrow> props" where
  "props_of (Text_node s) = []"
| "props_of (Element t ps cs) = ps"

text \<open>The values of prop \<open>p\<close> on the elements with tag \<open>t\<close>, in document order.\<close>

fun find_props :: "tag \<Rightarrow> string \<Rightarrow> element \<Rightarrow> jsval list" where
  "find_props t p (Text_node s) = []"
| "find_props t p (Element t' ps cs) =
     (if t' = t then (case map_of ps p of Some v \<Rightarrow> [v] | None \<Rightarrow> []) else [])
     @ concat (map (find_props t p) cs)"

text \<open>The text of a tree, in document order.\<close>

fun text_content :: "element \<Rightarrow> string list" where
  "text_content (Text_node s) = [s]"
| "text_content (Element t ps cs) = concat (map text_content cs)"

text \<open>The tree with prop \<open>p\<close> removed from every element.\<close>

fun without_prop :: "string \<Rightarrow> element \<Rightarrow> element" where
  "without_prop p (Text_node s) = Text_node s"
| "without_prop p (Element t ps cs) =
     Element t (filter (\<lambda>kv. fst kv \<noteq> p) ps) (map (without_prop p) cs)"

text \<open>A component returned its tree; it did not throw.\<close>

fun returns :: "js_error + element \<Rightarrow> bool" where
  "returns (Inr e) = True"
| "returns (Inl err) = False"

text \<open>
  The name this repository is published under; the \<open>repo\<close> prop of the comment
  widget is compared with it.
\<close>

definition site_repository :: string where
  "site_repository = ''Lucacez/personal''"

section \<open>The colour lookup\<close>

lemma colorSecondary_own:
  "map_of colorSecondary k =
     (if k = ''light'' then Some (Str ''gray.700'')
      else if k = ''dark'' then Some (Str ''gray.400'') else None)"
  by (simp add: colorSecondary_def)

lemma inherited_not_string: "map_of object_prototype k = Some v \<Longrightarrow> \<not> is_string v"
  by (auto simp: object_prototype_def split: if_splits)

lemma js_get_third:
  "k \<noteq> ''light'' \<Longrightarrow> k \<noteq> ''dark'' \<Longrightarrow>
   js_get colorSecondary k =
     (case map_of object_prototype k of None \<Rightarrow> Undefined | Some v \<Rightarrow> v)"
  by (simp add: js_get_def colorSecondary_own)

lemma js_get_token_iff:
  "is_string (js_get colorSecondary k) \<longleftrightarrow> k = ''light'' \<or> k = ''dark''"
proof (cases "k = ''light'' \<or> k = ''dark''")
  case True
  then show ?thesis by (auto simp: js_get_def colorSecondary_own)
next
  case False
  then have "js_get colorSecondary k =
      (case map_of object_prototype k of None \<Rightarrow> Undefined | Some v \<Rightarrow> v)"
    by (simp add: js_get_third)
  then have "\<not> is_string (js_get colorSecondary k)"
    by (auto split: option.splits dest: inherited_not_string)
  with False show ?thesis by simp
qed

lemma Info_returns: "returns (Info amb)"
  by (simp add: Info_def Let_def)

lemma Info_color:
  "\<exists>e. Info amb = Inr e \<and>
       find_props (Component ''Text'') ''color'' e = [js_get colorSecondary (colorMode amb)]"
  by (simp add: Info_def Let_def useColorMode_def)

section \<open>InfoPage: the selection of the colour token\<close>

text \<open>
  C1, as stated: the selection accepts only \<open>light\<close> and \<open>dark\<close>, no third value is
  accepted. \<open>Info\<close> has no check of \<open>colorMode\<close>: under the third value \<open>system\<close>
  it returns its tree as under any other, with \<open>undefined\<close> as the colour of the text.
\<close>

theorem Info_accepts_third_value:
  "''system'' \<noteq> ''light'' \<and> ''system'' \<noteq> ''dark'' \<and>
   returns (Info \<lparr>colorMode = ''system''\<rparr>) \<and>
   (\<exists>e. Info \<lparr>colorMode = ''system''\<rparr> = Inr e \<and>
        find_props (Component ''Text'') ''color'' e = [Undefined])"
  using Info_color [of "\<lparr>colorMode = ''system''\<rparr>"] Info_returns [of "\<lparr>colorMode = ''system''\<rparr>"]
  by (auto simp: js_get_def colorSecondary_def object_prototype_def)

text \<open>
  C1, amended: the lookup table has exactly the two keys \<open>light\<close> and \<open>dark\<close>. For
  every value of \<open>colorMode\<close> the function \<open>Info\<close> returns its tree, none is
  rejected, and the colour that the tree passes to \<open>Text\<close> is the result of the
  lookup \<open>colorSecondary[colorMode]\<close>. That colour is a colour token (a string)
  exactly when \<open>colorMode\<close> is \<open>light\<close> or \<open>dark\<close>: the mapping is total over the
  two-valued enumeration, and under any third value the colour of the tree is not a
  token.
\<close>

theorem Info_selection_domain:
  "map fst colorSecondary = [''light'', ''dark''] \<and>
   (\<exists>e v. Info amb = Inr e \<and>
          find_props (Component ''Text'') ''color'' e = [v] \<and>
          v = js_get colorSecondary (colorMode amb) \<and>
          (is_string v \<longleftrightarrow> colorMode amb = ''light'' \<or> colorMode amb = ''dark''))"
proof -
  have keys: "map fst colorSecondary = [''light'', ''dark'']"
    by (simp add: colorSecondary_def)
  obtain e where e: "Info amb = Inr e"
    "find_props (Component ''Text'') ''color'' e = [js_get colorSecondary (colorMode amb)]"
    using Info_color [of amb] by blast
  have "is_string (js_get colorSecondary (colorMode amb)) \<longleftrightarrow>
      colorMode amb = ''light'' \<or> colorMode amb = ''dark''"
    by (rule js_get_token_iff)
  with keys e show ?thesis by blast
qed

theorem Info_selection_domain_witness:
  "(\<exists>e v. Info \<lparr>colorMode = ''light''\<rparr> = Inr e \<and>
          find_props (Component ''Text'') ''color'' e = [v] \<and> is_string v) \<and>
   (\<exists>e v. Info \<lparr>colorMode = ''system''\<rparr> = Inr e \<and>
          find_props (Component ''Text'') ''color'' e = [v] \<and> \<not> is_string v)"
proof -
  have l: "\<exists>e v. Info \<lparr>colorMode = ''light''\<rparr> = Inr e \<and>
      find_props (Component ''Text'') ''color'' e = [v] \<and> is_string v"
    using Info_selection_domain [of "\<lparr>colorMode = ''light''\<rparr>"] by auto
  have s: "\<exists>e v. Info \<lparr>colorMode = ''system''\<rparr> = Inr e \<and>
      find_props (Component ''Text'') ''color'' e = [v] \<and> \<not> is_string v"
    using Info_selection_domain [of "\<lparr>colorMode = ''system''\<rparr>"] by auto
  from l s show ?thesis by (rule conjI)
qed

text \<open>
  C2: on every render of \<open>Info\<close>, the colour of the text is the token \<open>gray.700\<close>
  when the ambient colour mode is \<open>light\<close>, and the token \<open>gray.400\<close> when it is
  \<open>dark\<close>.
\<close>

theorem Info_text_color:
  "(colorMode amb = ''light'' \<longrightarrow>
      (\<exists>e. Info amb = Inr e \<and>
           find_props (Component ''Text'') ''color'' e = [Str ''gray.700''])) \<and>
   (colorMode amb = ''dark'' \<longrightarrow>
      (\<exists>e. Info amb = Inr e \<and>
           find_props (Component ''Text'') ''color'' e = [Str ''gray.400'']))"
  using Info_color [of amb] by (auto simp: js_get_def colorSecondary_own)

theorem Info_text_color_witness:
  "(\<exists>e. Info \<lparr>colorMode = ''light''\<rparr> = Inr e \<and>
        find_props (Component ''Text'') ''color'' e = [Str ''gray.700'']) \<and>
   (\<exists>e. Info \<lparr>colorMode = ''dark''\<rparr> = Inr e \<and>
        find_props (Component ''Text'') ''color'' e = [Str ''gray.400''])"
  using Info_text_color [of "\<lparr>colorMode = ''light''\<rparr>"]
    Info_text_color [of "\<lparr>colorMode = ''dark''\<rparr>"]
  by simp




section \<open>InfoPage: the text does not depend on the colour mode\<close>

text \<open>
  C8: the heading and paragraph text of \<open>Info\<close> is static. Under any two ambient
  states, so under \<open>light\<close> and \<open>dark\<close>, the text of the tree is the same, and the
  two trees are equal once the \<open>color\<close> prop is removed: nothing but the selected
  colour depends on the colour mode. Under \<open>light\<close> and \<open>dark\<close> the trees do
  differ, in that colour.
\<close>

theorem Info_static_text:
  "map_sum id text_content (Info a) = map_sum id text_content (Info b) \<and>
   map_sum id (without_prop ''color'') (Info a) =
     map_sum id (without_prop ''color'') (Info b) \<and>
   Info \<lparr>colorMode = ''light''\<rparr> \<noteq> Info \<lparr>colorMode = ''dark''\<rparr>"
  by (simp add: Info_def Let_def useColorMode_def js_get_def colorSecondary_def)

section \<open>CommentWidget: the fixed configuration\<close>

text \<open>
  C3: on every render of \<open>Comment\<close>, under any ambient state, the configuration
  passed to the embedded widget has \<open>theme\<close> equal to \<open>dark\<close> and \<open>mapping\<close> equal to
  \<open>pathname\<close>.
\<close>

theorem Comment_theme_mapping:
  "\<exists>e. Comment amb = Inr e \<and>
       tag_of e = Some (Component ''Giscus'') \<and>
       map_of (props_of e) ''theme'' = Some (Str ''dark'') \<and>
       map_of (props_of e) ''mapping'' = Some (Str ''pathname'')"
  by (simp add: Comment_def)

text \<open>
  C6: the configuration of \<open>Comment\<close> consists of string-valued fields only (the
  eight fields of the source, in its order), and its two feature flags
  \<open>reactionsEnabled\<close> and \<open>emitMetadata\<close> are both the string \<open>0\<close>, that is
  disabled.
\<close>

theorem Comment_config_strings:
  "\<exists>e. Comment amb = Inr e \<and>
       map fst (props_of e) =
         [''repo'', ''repoId'', ''category'', ''categoryId'', ''mapping'',
          ''reactionsEnabled'', ''emitMetadata'', ''theme''] \<and>
       list_all is_string (map snd (props_of e)) \<and>
       map_of (props_of e) ''reactionsEnabled'' = Some (Str ''0'') \<and>
       map_of (props_of e) ''emitMetadata'' = Some (Str ''0'')"
  by (simp add: Comment_def)

text \<open>
  C7: \<open>Comment\<close> is deterministic. It reads nothing of the state it is rendered
  under: any two renders, under any two ambient states, return the same tree, with the
  same configuration, and neither throws.
\<close>

theorem Comment_deterministic:
  "Comment a = Comment b \<and> returns (Comment a) \<and>
   map_sum id props_of (Comment a) = map_sum id props_of (Comment b)"
  by (simp add: Comment_def)

text \<open>
  C10: on every render, the identifiers in the configuration of \<open>Comment\<close> are
  \<open>repo\<close> = melvnl/melvinliu.com, \<open>repoId\<close> = R_kgDOHk-dUg, \<open>category\<close> = General
  and \<open>categoryId\<close> = DIC_kwDOHk-dUs4CP-Ao; the repository named is not this one.
\<close>

theorem Comment_identifiers:
  "\<exists>e. Comment amb = Inr e \<and>
       map_of (props_of e) ''repo'' = Some (Str ''melvnl/melvinliu.com'') \<and>
       map_of (props_of e) ''repoId'' = Some (Str ''R_kgDOHk-dUg'') \<and>
       map_of (props_of e) ''category'' = Some (Str ''General'') \<and>
       map_of (props_of e) ''categoryId'' = Some (Str ''DIC_kwDOHk-dUs4CP-Ao'') \<and>
       map_of (props_of e) ''repo'' \<noteq> Some (Str site_repository)"
  by (simp add: Comment_def site_repository_def)

end
